theory Spec2Isabelle
  imports Main
begin

section \<open>Data model of \<open>src/app/page.tsx\<close>\<close>

text \<open>
  The page component keeps all of its data in React state cells. Each cell becomes a field
  of the record \<open>state\<close>; every handler of the component becomes a function from the
  state to the new state and the list of effects it issued (the two toast helpers issue
  none and return the state alone). An asynchronous handler is
  split at its \<open>await\<close>: the part before it (suffix \<open>_call\<close>) issues the request,
  the part after it (suffix \<open>_done\<close>) receives the outcome of the request.

  A TypeScript field \<open>_id\<close> is written with the suffix \<open>_oid\<close>, the optional field
  \<open>id\<close> with the suffix \<open>_id\<close>; an optional or nullable field is an \<open>option\<close>.
\<close>

datatype Priority = Low | Medium | High

datatype Status = Pending | InProgress | Completed

record IUser =
  u_oid :: string
  u_id :: "string option"
  username :: string
  email :: string

record ITask =
  t_oid :: string
  t_id :: "string option"
  title :: string
  description :: string
  priority :: Priority
  status :: Status
  dueDate :: "string option"
  assignedTo :: "IUser option"
  createdBy :: IUser
  t_createdAt :: string
  t_updatedAt :: string

record ILog =
  l_oid :: string
  l_id :: "string option"
  action :: string
  details :: "string option"
  performedBy :: "(string \<times> string) option"
  l_user :: "(string \<times> string) option"
  l_createdAt :: string
  taskId :: "string option"
  l_task :: "string option"

record INotification =
  n_oid :: string
  n_id :: "string option"
  n_user :: string
  message :: string
  isRead :: bool
  n_task :: "string option"
  n_createdAt :: string
  n_updatedAt :: string

text \<open>An entry of the \<open>toasts\<close> cell: \<open>{ id: string; message: string }\<close>.\<close>

record ToastItem =
  toast_id :: string
  toast_message :: string

text \<open>The socket object held by \<open>socketRef\<close>; only its \<open>connected\<close> flag is read.\<close>

record Socket =
  connected :: bool

datatype Scope = ScopeAll | ScopeCreated | ScopeAssigned

record state =
  currentUser :: "IUser option"
  users :: "IUser list"
  tasks :: "ITask list"
  logsByTask :: "string \<rightharpoonup> ILog list"
  notifications :: "INotification list"
  toasts :: "ToastItem list"
  socketRef :: "Socket option"
  searchTerm :: string
  filterStatus :: string
  filterPriority :: string
  scope :: Scope
  loading :: bool
  localStorage :: "string \<rightharpoonup> string"

text \<open>
  A handler is a closure created by one render of the component: it reads the values the
  cells had at that render. The handlers below read only these cells directly (every
  other access goes through a functional state update, which sees the latest state).
\<close>

record closure =
  c_currentUser :: "IUser option"
  c_notifications :: "INotification list"
  c_scope :: Scope
  c_filterStatus :: string
  c_filterPriority :: string
  c_searchTerm :: string

definition render :: "state \<Rightarrow> closure" where
  "render s = \<lparr> c_currentUser = currentUser s, c_notifications = notifications s,
      c_scope = scope s, c_filterStatus = filterStatus s,
      c_filterPriority = filterPriority s, c_searchTerm = searchTerm s \<rparr>"

subsection \<open>Requests, outcomes and effects\<close>

datatype request =
    GetTasks "(string \<times> string) list"
  | GetNotifications string
  | GetLogs string
  | PatchNotificationRead string string
  | PatchMarkRead string
  | DeleteTaskReq string

datatype effect =
    Api request
  | SocketOpen
  | SocketEmitRegister string
  | SocketDisconnect
  | BrowserNotification string
  | ConsoleLog string
  | ConsoleError string

text \<open>
  A rejected request: axios throws, and the handlers read at most
  \<open>e.response.data.message\<close> from the error.
\<close>

datatype failure = Failure "string option"

text \<open>
  The body of a list response: the handlers take \<open>res.data\<close> itself when it is an array
  and \<open>res.data?.field || []\<close> otherwise.
\<close>

datatype 'a payload = ArrayBody "'a list" | ObjectBody "'a list option"

fun payload_list :: "'a payload \<Rightarrow> 'a list" where
  "payload_list (ArrayBody xs) = xs"
| "payload_list (ObjectBody (Some xs)) = xs"
| "payload_list (ObjectBody None) = []"

subsection \<open>Helpers\<close>

text \<open>\<open>a || b\<close> for a string \<open>a\<close> and an optional string \<open>b\<close>: the empty string is falsy.\<close>

definition js_or :: "string \<Rightarrow> string option \<Rightarrow> string option" where
  "js_or a b = (if a \<noteq> [] then Some a else b)"

text \<open>\<open>x || ""\<close> for an optional string \<open>x\<close>.\<close>

definition or_empty :: "string option \<Rightarrow> string" where
  "or_empty x = (case x of None \<Rightarrow> [] | Some v \<Rightarrow> v)"

definition getTaskId :: "ITask \<Rightarrow> string" where
  "getTaskId task = or_empty (js_or (t_oid task) (t_id task))"

definition getUserId :: "IUser \<Rightarrow> string" where
  "getUserId user = or_empty (js_or (u_oid user) (u_id user))"

text \<open>The key of a notification, \<open>n._id || n.id\<close>, as the list and \<open>markNotificationRead\<close> use it.\<close>

definition notifKey :: "INotification \<Rightarrow> string option" where
  "notifKey n = js_or (n_oid n) (n_id n)"

text \<open>\<open>e?.response?.data?.message || fallback\<close>.\<close>

fun errorMsg :: "failure \<Rightarrow> string \<Rightarrow> string" where
  "errorMsg (Failure None) fallback = fallback"
| "errorMsg (Failure (Some m)) fallback = (if m \<noteq> [] then m else fallback)"

text \<open>Decimal rendering of a non-negative integer (\<open>Number.prototype.toString\<close>).\<close>

definition digit_char :: "nat \<Rightarrow> char" where
  "digit_char d = ''0123456789'' ! d"

fun toString :: "nat \<Rightarrow> string" where
  "toString n = (if n < 10 then [digit_char n]
                 else toString (n div 10) @ [digit_char (n mod 10)])"

declare toString.simps [simp del]

subsection \<open>Toast queue\<close>

text \<open>
  \<open>showToast\<close> reads the clock: \<open>now\<close> is the value of \<open>Date.now()\<close> at the call, in
  milliseconds.
\<close>

definition showToast :: "nat \<Rightarrow> string \<Rightarrow> state \<Rightarrow> state" where
  "showToast now msg s =
     s\<lparr>toasts := toasts s @ [\<lparr>toast_id = toString now, toast_message = msg\<rparr>]\<rparr>"

definition removeToast :: "string \<Rightarrow> state \<Rightarrow> state" where
  "removeToast i s = s\<lparr>toasts := filter (\<lambda>toast. toast_id toast \<noteq> i) (toasts s)\<rparr>"

subsection \<open>Push channel\<close>

text \<open>
  The effect that runs when \<open>currentUser\<close> changes: it opens a socket unless
  \<open>socketRef\<close> already holds one, and subscribes the handlers below.
\<close>

definition socketEffect :: "closure \<Rightarrow> state \<Rightarrow> state \<times> effect list" where
  "socketEffect c s =
     (case c_currentUser c of
        None \<Rightarrow> (s, [])
      | Some u \<Rightarrow>
          (case socketRef s of
             None \<Rightarrow> (s\<lparr>socketRef := Some \<lparr>connected = False\<rparr>\<rparr>, [SocketOpen])
           | Some k \<Rightarrow> (s, [])))"

text \<open>
  The \<open>connect\<close> and \<open>disconnect\<close> events of the socket: the socket library keeps the
  \<open>connected\<close> flag, the subscribed handlers log and, on \<open>connect\<close>, register the user.
\<close>

definition onConnect :: "closure \<Rightarrow> state \<Rightarrow> state \<times> effect list" where
  "onConnect c s =
     (s\<lparr>socketRef := map_option (\<lambda>k. k\<lparr>connected := True\<rparr>) (socketRef s)\<rparr>,
      ConsoleLog ''Socket connected'' #
      (case c_currentUser c of
         None \<Rightarrow> []
       | Some u \<Rightarrow> [SocketEmitRegister (getUserId u)]))"

definition onDisconnect :: "state \<Rightarrow> state \<times> effect list" where
  "onDisconnect s =
     (s\<lparr>socketRef := map_option (\<lambda>k. k\<lparr>connected := False\<rparr>) (socketRef s)\<rparr>,
      [ConsoleLog ''Socket disconnected''])"

subsection \<open>Fetch functions\<close>

text \<open>The query string \<open>fetchTasks\<close> builds with \<open>URLSearchParams.set\<close>, in order.\<close>

definition task_params :: "closure \<Rightarrow> (string \<times> string) list" where
  "task_params c =
     (if c_scope c = ScopeCreated then [(''filter'', ''created'')]
      else if c_scope c = ScopeAssigned then [(''filter'', ''assigned'')]
      else [])
     @ (if c_filterStatus c \<noteq> ''all'' then [(''status'', c_filterStatus c)] else [])
     @ (if c_filterPriority c \<noteq> ''all'' then [(''priority'', c_filterPriority c)] else [])
     @ (if c_searchTerm c \<noteq> [] then [(''q'', c_searchTerm c)] else [])"

definition fetchTasks_call :: "closure \<Rightarrow> state \<Rightarrow> state \<times> effect list" where
  "fetchTasks_call c s =
     (case c_currentUser c of
        None \<Rightarrow> (s, [])
      | Some u \<Rightarrow> (s\<lparr>loading := True\<rparr>, [Api (GetTasks (task_params c))]))"

definition fetchTasks_done ::
  "nat \<Rightarrow> failure + ITask payload \<Rightarrow> state \<Rightarrow> state \<times> effect list" where
  "fetchTasks_done now r s =
     (case r of
        Inr body \<Rightarrow> (s\<lparr>tasks := payload_list body, loading := False\<rparr>, [])
      | Inl e \<Rightarrow>
          ((showToast now ''Failed to fetch tasks'' s)\<lparr>loading := False\<rparr>,
           [ConsoleError ''Failed to fetch tasks:'']))"

definition fetchNotifications_call :: "closure \<Rightarrow> state \<Rightarrow> state \<times> effect list" where
  "fetchNotifications_call c s =
     (case c_currentUser c of
        None \<Rightarrow> (s, [])
      | Some u \<Rightarrow> (s, [Api (GetNotifications (getUserId u))]))"

definition fetchNotifications_done ::
  "failure + INotification payload \<Rightarrow> state \<Rightarrow> state \<times> effect list" where
  "fetchNotifications_done r s =
     (case r of
        Inr body \<Rightarrow> (s\<lparr>notifications := payload_list body\<rparr>, [])
      | Inl e \<Rightarrow> (s, [ConsoleError ''Failed to fetch notifications:'']))"

definition fetchLogs_call :: "string \<Rightarrow> state \<Rightarrow> state \<times> effect list" where
  "fetchLogs_call tid s = (s, [Api (GetLogs tid)])"

definition fetchLogs_done ::
  "nat \<Rightarrow> string \<Rightarrow> failure + ILog payload \<Rightarrow> state \<Rightarrow> state \<times> effect list" where
  "fetchLogs_done now tid r s =
     (case r of
        Inr body \<Rightarrow> (s\<lparr>logsByTask := (logsByTask s)(tid \<mapsto> payload_list body)\<rparr>, [])
      | Inl e \<Rightarrow>
          (showToast now ''Failed to fetch task logs'' s,
           [ConsoleError ''Failed to fetch logs:'']))"

subsection \<open>Incoming push notification\<close>

text \<open>
  \<open>onNotification\<close> is subscribed by the socket effect, so it runs with the closure \<open>c\<close>
  of the render in which that effect ran. \<open>granted\<close> says whether the browser offers
  \<open>Notification\<close> with permission \<open>granted\<close>.
\<close>

definition onNotification ::
  "closure \<Rightarrow> bool \<Rightarrow> nat \<Rightarrow> INotification \<Rightarrow> state \<Rightarrow> state \<times> effect list" where
  "onNotification c granted now notif s =
     (let s1 = s\<lparr>notifications := notif # notifications s\<rparr>;
          s2 = showToast now (message notif) s1;
          r = fetchTasks_call c s2
      in (fst r,
          ConsoleLog ''New notification:'' # snd r
          @ (if granted then [BrowserNotification (message notif)] else [])))"

subsection \<open>Logout\<close>

text \<open>
  \<open>socketRef.current?.disconnect()\<close> is a call into the socket library; it is taken to
  return normally.
\<close>

definition handleLogout :: "nat \<Rightarrow> state \<Rightarrow> state \<times> effect list" where
  "handleLogout now s =
     (let s1 = s\<lparr>localStorage := (localStorage s)(''token'' := None, ''currentUser'' := None),
                 currentUser := None, tasks := [], notifications := [],
                 logsByTask := Map.empty\<rparr>;
          effs = (case socketRef s1 of None \<Rightarrow> [] | Some k \<Rightarrow> [SocketDisconnect]);
          s2 = s1\<lparr>socketRef := None\<rparr>
      in (showToast now ''Logged out successfully'' s2, effs))"

subsection \<open>Deleting a task\<close>

text \<open>\<open>confirmed\<close> is the answer of the \<open>confirm\<close> dialog.\<close>

definition deleteTask_call :: "bool \<Rightarrow> ITask \<Rightarrow> state \<Rightarrow> state \<times> effect list" where
  "deleteTask_call confirmed task s =
     (if \<not> confirmed then (s, [])
      else (s\<lparr>loading := True\<rparr>, [Api (DeleteTaskReq (getTaskId task))]))"

definition deleteTask_done ::
  "nat \<Rightarrow> string \<Rightarrow> failure + unit \<Rightarrow> state \<Rightarrow> state \<times> effect list" where
  "deleteTask_done now tid r s =
     (case r of
        Inr u \<Rightarrow>
          ((showToast now ''Task deleted successfully!''
             (s\<lparr>tasks := filter (\<lambda>x. getTaskId x \<noteq> tid) (tasks s),
                logsByTask := (logsByTask s)(tid := None)\<rparr>))\<lparr>loading := False\<rparr>, [])
      | Inl e \<Rightarrow>
          ((showToast now (errorMsg e ''Failed to delete task'') s)\<lparr>loading := False\<rparr>, []))"

subsection \<open>Read state of notifications\<close>

definition unreadCount :: "state \<Rightarrow> nat" where
  "unreadCount s = length (filter (\<lambda>n. \<not> isRead n) (notifications s))"

text \<open>
  The outcome of the confirm call of \<open>markNotificationRead\<close> carries
  \<open>response.data.success\<close>.
\<close>

definition markNotificationRead_call ::
  "closure \<Rightarrow> string \<Rightarrow> state \<Rightarrow> state \<times> effect list" where
  "markNotificationRead_call c notificationId s =
     (case c_currentUser c of
        None \<Rightarrow> (s, [])
      | Some u \<Rightarrow> (s, [Api (PatchNotificationRead (getUserId u) notificationId)]))"

definition markNotificationRead_done ::
  "string \<Rightarrow> failure + bool \<Rightarrow> state \<Rightarrow> state \<times> effect list" where
  "markNotificationRead_done notificationId r s =
     (case r of
        Inr success \<Rightarrow>
          (if success
           then (s\<lparr>notifications :=
                     map (\<lambda>n. if notifKey n = Some notificationId then n\<lparr>isRead := True\<rparr> else n)
                       (notifications s)\<rparr>, [])
           else (s, []))
      | Inl e \<Rightarrow> (s, [ConsoleError ''Error marking notification as read:'']))"

text \<open>
  The outcome of the batch call of \<open>markAllReadLocal\<close> carries \<open>response.data.success\<close>
  and \<open>response.data.modifiedCount\<close>.
\<close>

definition markAllReadLocal_call ::
  "closure \<Rightarrow> nat \<Rightarrow> state \<Rightarrow> state \<times> effect list" where
  "markAllReadLocal_call c now s =
     (case c_currentUser c of
        None \<Rightarrow> (s, [])
      | Some u \<Rightarrow>
          (if length (filter (\<lambda>n. \<not> isRead n) (c_notifications c)) = 0
           then (showToast now ''No unread notifications to mark'' s, [])
           else (s, [Api (PatchMarkRead (getUserId u))])))"

definition markAllReadLocal_done ::
  "nat \<Rightarrow> failure + bool \<times> nat \<Rightarrow> state \<Rightarrow> state \<times> effect list" where
  "markAllReadLocal_done now r s =
     (case r of
        Inr (success, modifiedCount) \<Rightarrow>
          (if success
           then (showToast now (toString modifiedCount @ '' notifications marked as read'')
                   (s\<lparr>notifications :=
                        map (\<lambda>n. if isRead n then n else n\<lparr>isRead := True\<rparr>)
                          (notifications s)\<rparr>), [])
           else (s, []))
      | Inl e \<Rightarrow>
          (showToast now ''Failed to mark notifications as read'' s,
           [ConsoleError ''Error marking notifications as read:'']))"

subsection \<open>Events\<close>

text \<open>
  The component is driven by events, one at a time: a user action, a socket event, or the
  outcome of a request arriving. An outcome event carries what the handler captured
  before its \<open>await\<close>.
\<close>

datatype event =
    SocketEffect closure
  | Connect closure
  | Disconnect
  | PushNotification closure bool nat INotification
  | FetchTasksCall closure
  | FetchTasksDone nat "failure + ITask payload"
  | FetchNotificationsCall closure
  | FetchNotificationsDone "failure + INotification payload"
  | FetchLogsCall string
  | FetchLogsDone nat string "failure + ILog payload"
  | MarkReadCall closure string
  | MarkReadDone string "failure + bool"
  | MarkAllReadCall closure nat
  | MarkAllReadDone nat "failure + bool \<times> nat"
  | DeleteTaskCall bool ITask
  | DeleteTaskDone nat string "failure + unit"
  | Logout nat
  | ShowToast nat string
  | RemoveToast string

fun step :: "event \<Rightarrow> state \<Rightarrow> state \<times> effect list" where
  "step (SocketEffect c) s = socketEffect c s"
| "step (Connect c) s = onConnect c s"
| "step Disconnect s = onDisconnect s"
| "step (PushNotification c granted now notif) s = onNotification c granted now notif s"
| "step (FetchTasksCall c) s = fetchTasks_call c s"
| "step (FetchTasksDone now r) s = fetchTasks_done now r s"
| "step (FetchNotificationsCall c) s = fetchNotifications_call c s"
| "step (FetchNotificationsDone r) s = fetchNotifications_done r s"
| "step (FetchLogsCall tid) s = fetchLogs_call tid s"
| "step (FetchLogsDone now tid r) s = fetchLogs_done now tid r s"
| "step (MarkReadCall c nid) s = markNotificationRead_call c nid s"
| "step (MarkReadDone nid r) s = markNotificationRead_done nid r s"
| "step (MarkAllReadCall c now) s = markAllReadLocal_call c now s"
| "step (MarkAllReadDone now r) s = markAllReadLocal_done now r s"
| "step (DeleteTaskCall confirmed task) s = deleteTask_call confirmed task s"
| "step (DeleteTaskDone now tid r) s = deleteTask_done now tid r s"
| "step (Logout now) s = handleLogout now s"
| "step (ShowToast now msg) s = (showToast now msg s, [])"
| "step (RemoveToast i) s = (removeToast i s, [])"

text \<open>Running a sequence of events, in order; \<open>trace\<close> collects the effects issued.\<close>

fun run :: "event list \<Rightarrow> state \<Rightarrow> state" where
  "run [] s = s"
| "run (e # es) s = run es (fst (step e s))"

fun trace :: "event list \<Rightarrow> state \<Rightarrow> effect list" where
  "trace [] s = []"
| "trace (e # es) s = snd (step e s) @ trace es (fst (step e s))"

text \<open>The requests among a list of effects.\<close>

fun api_calls :: "effect list \<Rightarrow> request list" where
  "api_calls [] = []"
| "api_calls (Api q # es) = q # api_calls es"
| "api_calls (e # es) = api_calls es"

text \<open>
  The task fetch events, and the body of the successful task response that arrived last in
  a sequence of events.
\<close>

fun is_task_fetch :: "event \<Rightarrow> bool" where
  "is_task_fetch (FetchTasksCall c) = True"
| "is_task_fetch (FetchTasksDone now r) = True"
| "is_task_fetch e = False"

fun last_task_response :: "event list \<Rightarrow> ITask payload option" where
  "last_task_response [] = None"
| "last_task_response (e # es) =
     (case last_task_response es of
        Some r \<Rightarrow> Some r
      | None \<Rightarrow> (case e of FetchTasksDone now (Inr r) \<Rightarrow> Some r | _ \<Rightarrow> None))"

text \<open>A confirmed delete that the server accepts: the call, then its successful outcome.\<close>

definition delete_success :: "nat \<Rightarrow> ITask \<Rightarrow> state \<Rightarrow> state" where
  "delete_success now task s =
     run [DeleteTaskCall True task, DeleteTaskDone now (getTaskId task) (Inr ())] s"

subsection \<open>The unread count as the specification words it\<close>

text \<open>
  The specification's count, \<open>count(notifications where isRead == false)\<close>, written
  independently of the component's \<open>filter(...).length\<close>.
\<close>

fun spec_unreadCount :: "INotification list \<Rightarrow> nat" where
  "spec_unreadCount [] = 0"
| "spec_unreadCount (n # ns) =
     (if isRead n = False then Suc (spec_unreadCount ns) else spec_unreadCount ns)"

subsection \<open>Event sequences that bring no id twice\<close>

text \<open>
  A push event is \<open>admissible\<close> in a state when its key is not in the collection yet, a
  successful notification snapshot when its entries have pairwise different keys; every
  other event is admissible.
\<close>

fun admissible :: "event \<Rightarrow> state \<Rightarrow> bool" where
  "admissible (PushNotification c granted now notif) s =
     (notifKey notif \<notin> set (map notifKey (notifications s)))"
| "admissible (FetchNotificationsDone (Inr body)) s =
     distinct (map notifKey (payload_list body))"
| "admissible e s = True"

fun admissible_run :: "event list \<Rightarrow> state \<Rightarrow> bool" where
  "admissible_run [] s = True"
| "admissible_run (e # es) s = (admissible e s \<and> admissible_run es (fst (step e s)))"

subsection \<open>Concrete states\<close>

text \<open>The state of the first render: the initial values of the \<open>useState\<close> cells.\<close>

definition init_state :: state where
  "init_state = \<lparr> currentUser = None, users = [], tasks = [], logsByTask = Map.empty,
      notifications = [], toasts = [], socketRef = None, searchTerm = [],
      filterStatus = ''all'', filterPriority = ''all'', scope = ScopeAll, loading = False,
      localStorage = Map.empty \<rparr>"

definition ex_user :: IUser where
  "ex_user = \<lparr> u_oid = ''u1'', u_id = None, username = ''ann'',
      email = ''ann@example.org'' \<rparr>"

definition ex_notif :: "string \<Rightarrow> string \<Rightarrow> INotification" where
  "ex_notif i m = \<lparr> n_oid = i, n_id = None, n_user = ''u1'', message = m, isRead = False,
      n_task = None, n_createdAt = ''2024-01-01T00:00:00Z'',
      n_updatedAt = ''2024-01-01T00:00:00Z'' \<rparr>"

definition ex_task :: "string \<Rightarrow> string \<Rightarrow> ITask" where
  "ex_task i t = \<lparr> t_oid = i, t_id = None, title = t, description = [], priority = Medium,
      status = Pending, dueDate = None, assignedTo = None, createdBy = ex_user,
      t_createdAt = ''2024-01-01T00:00:00Z'', t_updatedAt = ''2024-01-01T00:00:00Z'' \<rparr>"

definition ex_log :: "string \<Rightarrow> ILog" where
  "ex_log i = \<lparr> l_oid = i, l_id = None, action = ''created'', details = None,
      performedBy = None, l_user = None, l_createdAt = ''2024-01-01T00:00:00Z'',
      taskId = None, l_task = None \<rparr>"

text \<open>A logged-in session with nothing loaded yet.\<close>

definition ex_session :: state where
  "ex_session = init_state\<lparr>currentUser := Some ex_user\<rparr>"

text \<open>A session with one unread notification.\<close>

definition ex_unread :: state where
  "ex_unread = ex_session\<lparr>notifications := [ex_notif ''n1'' ''hello'']\<rparr>"

text \<open>A session with two tasks, a notification, cached logs and a connected socket.\<close>

definition ex_busy :: state where
  "ex_busy = ex_session\<lparr>tasks := [ex_task ''t1'' ''A'', ex_task ''t2'' ''B''],
       notifications := [ex_notif ''n1'' ''hello''],
       logsByTask := [''t1'' \<mapsto> [ex_log ''l1''], ''t2'' \<mapsto> []],
       socketRef := Some \<lparr>connected = True\<rparr>\<rparr>"

text \<open>A run of the reconciler: a snapshot, two pushes with new ids, and both mark operations.\<close>

definition ex_events :: "event list" where
  "ex_events =
     [FetchNotificationsDone (Inr (ArrayBody [ex_notif ''n3'' ''c''])),
      PushNotification (render ex_session) False 1000 (ex_notif ''n1'' ''a''),
      MarkReadDone ''n1'' (Inr True),
      PushNotification (render ex_session) False 2000 (ex_notif ''n2'' ''b''),
      MarkAllReadDone 3000 (Inr (True, 2))]"

lemmas ex_defs = init_state_def ex_user_def ex_notif_def ex_task_def ex_log_def
  ex_session_def ex_unread_def ex_busy_def ex_events_def

section \<open>Properties\<close>

subsection \<open>What a toast leaves alone\<close>

lemma notifications_showToast [simp]: "notifications (showToast now msg s) = notifications s"
  by (simp add: showToast_def)

lemma tasks_showToast [simp]: "tasks (showToast now msg s) = tasks s"
  by (simp add: showToast_def)

lemma logsByTask_showToast [simp]: "logsByTask (showToast now msg s) = logsByTask s"
  by (simp add: showToast_def)

lemma toString_1000: "toString 1000 = ''1000''"
  by code_simp

subsection \<open>Push events\<close>

lemma notifications_fetchTasks_call [simp]:
  "notifications (fst (fetchTasks_call c s)) = notifications s"
  by (simp add: fetchTasks_call_def split: option.splits)

lemma notifications_onNotification:
  "notifications (fst (onNotification c granted now notif s)) = notif # notifications s"
  by (simp add: onNotification_def Let_def)

text \<open>
  C1, as amended. \<open>onNotification\<close> has no check for an id that is already present:
  every delivery prepends its notification. Delivering the same notification twice gives
  the collection of a single delivery with that notification once more in front, that is,
  two copies in front of the collection before the deliveries.
\<close>

theorem push_twice_prepends_twice:
  "notifications (run [PushNotification c1 g1 t1 n, PushNotification c2 g2 t2 n] s)
     = n # notifications (run [PushNotification c1 g1 t1 n] s)
   \<and> notifications (run [PushNotification c1 g1 t1 n, PushNotification c2 g2 t2 n] s)
     = n # n # notifications s"
  by (simp add: notifications_onNotification)

text \<open>
  C1 as stated fails: after the notification \<open>n1\<close> is delivered twice to a fresh session
  the collection differs from the one after a single delivery.
\<close>

theorem push_twice_counterexample:
  "notifications
     (run [PushNotification (render ex_session) False 1000 (ex_notif ''n1'' ''hello''),
           PushNotification (render ex_session) False 2000 (ex_notif ''n1'' ''hello'')]
        ex_session)
   \<noteq> notifications
     (run [PushNotification (render ex_session) False 1000 (ex_notif ''n1'' ''hello'')]
        ex_session)"
  by (simp add: notifications_onNotification)

subsection \<open>One entry per id\<close>

lemma notifKey_isRead_update [simp]: "notifKey (n\<lparr>isRead := b\<rparr>) = notifKey n"
  by (simp add: notifKey_def)

lemma keys_markRead:
  "map notifKey (notifications (fst (markNotificationRead_done nid r s)))
     = map notifKey (notifications s)"
  by (auto simp: markNotificationRead_done_def split: sum.splits)

lemma keys_markAll:
  "map notifKey (notifications (fst (markAllReadLocal_done now r s)))
     = map notifKey (notifications s)"
  by (auto simp: markAllReadLocal_done_def split: sum.splits prod.splits)

lemma step_keeps_distinct:
  assumes "distinct (map notifKey (notifications s))" and "admissible e s"
  shows "distinct (map notifKey (notifications (fst (step e s))))"
proof (cases e)
  case (PushNotification c g t n)
  with assms show ?thesis by (simp add: notifications_onNotification)
next
  case (FetchNotificationsDone r)
  with assms show ?thesis
    by (cases r) (simp_all add: fetchNotifications_done_def)
next
  case (MarkReadDone nid r)
  with assms show ?thesis by (simp add: keys_markRead)
next
  case (MarkAllReadDone t r)
  with assms show ?thesis by (simp add: keys_markAll)
next
  case (Logout t)
  then show ?thesis by (simp add: handleLogout_def Let_def)
qed (use assms in \<open>auto simp: socketEffect_def onConnect_def onDisconnect_def
      fetchTasks_done_def fetchNotifications_call_def fetchLogs_call_def fetchLogs_done_def
      markNotificationRead_call_def markAllReadLocal_call_def deleteTask_call_def
      deleteTask_done_def removeToast_def split: option.splits sum.splits\<close>)

text \<open>
  C2, as amended. Starting from a collection with at most one entry per id, every sequence
  of events in which each push event carries an id that is not in the collection yet and
  each successful snapshot has at most one entry per id leaves at most one entry per id.
  The two mark operations never change the ids of the collection.
\<close>

theorem one_entry_per_id_amended:
  "distinct (map notifKey (notifications s)) \<Longrightarrow> admissible_run es s \<Longrightarrow>
   distinct (map notifKey (notifications (run es s)))"
proof (induction es arbitrary: s)
  case Nil
  then show ?case by simp
next
  case (Cons e es)
  from Cons.prems have "distinct (map notifKey (notifications (fst (step e s))))"
    by (simp add: step_keeps_distinct)
  with Cons show ?case by simp
qed

theorem one_entry_per_id_witness:
  "distinct (map notifKey (notifications ex_session))
   \<and> admissible_run ex_events ex_session
   \<and> map notifKey (notifications (run ex_events ex_session))
       = [Some ''n2'', Some ''n1'', Some ''n3'']
   \<and> distinct (map notifKey (notifications (run ex_events ex_session)))"
proof -
  have h1: "distinct (map notifKey (notifications ex_session))"
    by (simp add: ex_defs)
  have h2: "admissible_run ex_events ex_session"
    by (simp add: ex_defs fetchNotifications_done_def notifications_onNotification
          keys_markRead notifKey_def js_or_def)
  have v: "map notifKey (notifications (run ex_events ex_session))
       = [Some ''n2'', Some ''n1'', Some ''n3'']"
    by (simp add: ex_defs fetchNotifications_done_def notifications_onNotification
          keys_markRead keys_markAll notifKey_def js_or_def)
  from one_entry_per_id_amended [OF h1 h2] h1 h2 v show ?thesis
    by blast
qed

text \<open>
  C2 as stated fails: two push events with the id \<open>n1\<close> leave two entries with that id.
\<close>

theorem one_entry_per_id_counterexample:
  "map notifKey (notifications
     (run [PushNotification (render ex_session) False 1000 (ex_notif ''n1'' ''hello''),
           PushNotification (render ex_session) False 2000 (ex_notif ''n1'' ''hello'')]
        ex_session)) = [Some ''n1'', Some ''n1'']
   \<and> \<not> distinct (map notifKey (notifications
     (run [PushNotification (render ex_session) False 1000 (ex_notif ''n1'' ''hello''),
           PushNotification (render ex_session) False 2000 (ex_notif ''n1'' ''hello'')]
        ex_session)))"
  by (simp add: notifications_onNotification ex_defs notifKey_def js_or_def)

subsection \<open>Task snapshots\<close>

lemma tasks_fetchTasks_call [simp]: "tasks (fst (fetchTasks_call c s)) = tasks s"
  by (simp add: fetchTasks_call_def split: option.splits)

lemma tasks_fetchTasks_done:
  "tasks (fst (fetchTasks_done now r s))
     = (case r of Inl e \<Rightarrow> tasks s | Inr b \<Rightarrow> payload_list b)"
  by (simp add: fetchTasks_done_def split: sum.splits)

text \<open>
  However task fetches and their outcomes interleave, the collection holds the successful
  response that arrived last, whenever its request was issued.
\<close>

lemma tasks_follow_last_response:
  "list_all is_task_fetch es \<Longrightarrow>
   tasks (run es s)
     = (case last_task_response es of None \<Rightarrow> tasks s | Some r \<Rightarrow> payload_list r)"
proof (induction es arbitrary: s)
  case Nil
  then show ?case by simp
next
  case (Cons e es)
  then have rest: "list_all is_task_fetch es" and fe: "is_task_fetch e"
    by simp_all
  have ih: "tasks (run es (fst (step e s)))
      = (case last_task_response es of
           None \<Rightarrow> tasks (fst (step e s)) | Some r \<Rightarrow> payload_list r)"
    using Cons.IH [OF rest] .
  show ?case
  proof (cases "last_task_response es")
    case (Some r)
    with ih show ?thesis by simp
  next
    case None
    with ih fe show ?thesis
      by (cases e) (auto simp: tasks_fetchTasks_done split: sum.splits)
  qed
qed

text \<open>
  C3, as amended. \<open>fetchTasks\<close> attaches no sequence number and its continuation stores
  whatever response it receives. When the fetches for A and then B are issued in that
  order and B's response arrives before A's, the task collection finally holds A's
  response: the response that arrives last wins.
\<close>

theorem last_response_wins:
  "tasks (run [FetchTasksCall cA, FetchTasksCall cB,
               FetchTasksDone t1 (Inr rB), FetchTasksDone t2 (Inr rA)] s) = payload_list rA"
  by (simp add: fetchTasks_done_def)

text \<open>
  C3 as stated fails: the fetch for status \<open>Pending\<close> is issued before the one for
  \<open>Completed\<close>, the second response arrives first, and the collection ends with the
  task of the first request.
\<close>

theorem last_fetch_wins_counterexample:
  "api_calls (trace [FetchTasksCall (render (ex_session\<lparr>filterStatus := ''Pending''\<rparr>)),
                     FetchTasksCall (render (ex_session\<lparr>filterStatus := ''Completed''\<rparr>)),
                     FetchTasksDone 1000 (Inr (ArrayBody [ex_task ''t2'' ''B''])),
                     FetchTasksDone 2000 (Inr (ArrayBody [ex_task ''t1'' ''A'']))] ex_session)
     = [GetTasks [(''status'', ''Pending'')], GetTasks [(''status'', ''Completed'')]]
   \<and> tasks (run [FetchTasksCall (render (ex_session\<lparr>filterStatus := ''Pending''\<rparr>)),
                  FetchTasksCall (render (ex_session\<lparr>filterStatus := ''Completed''\<rparr>)),
                  FetchTasksDone 1000 (Inr (ArrayBody [ex_task ''t2'' ''B''])),
                  FetchTasksDone 2000 (Inr (ArrayBody [ex_task ''t1'' ''A'']))] ex_session)
     = [ex_task ''t1'' ''A'']
   \<and> [ex_task ''t1'' ''A''] \<noteq> [ex_task ''t2'' ''B'']"
  by (simp add: ex_defs render_def fetchTasks_call_def fetchTasks_done_def task_params_def)

text \<open>
  C6. A failed fetch of the tasks leaves the task collection, the notification collection
  and the log cache as they were; a failed fetch of the notifications leaves the whole
  state as it was.
\<close>

theorem failed_fetch_keeps_collections:
  "tasks (fst (fetchTasks_done now (Inl e) s)) = tasks s
   \<and> notifications (fst (fetchTasks_done now (Inl e) s)) = notifications s
   \<and> logsByTask (fst (fetchTasks_done now (Inl e) s)) = logsByTask s
   \<and> fst (fetchNotifications_done (Inl e) s) = s"
  by (simp add: fetchTasks_done_def fetchNotifications_done_def)

subsection \<open>Marking notifications read\<close>

text \<open>
  C4, as amended. With a user logged in, \<open>markNotificationRead\<close> first issues exactly one
  confirm call, for that user and the given id; with no user it issues nothing. In both
  cases the call leaves the whole state, and so the collection, as it is while the confirm
  call is pending. Only a confirm call that resolves with \<open>success\<close> sets \<open>isRead\<close> on
  the entries with the given id; when the call fails, or resolves without \<open>success\<close>,
  the collection is unchanged, so nothing was flipped and nothing is rolled back.
\<close>

theorem markRead_after_confirm:
  "api_calls (snd (markNotificationRead_call c nid s))
     = (case c_currentUser c of
          None \<Rightarrow> []
        | Some u \<Rightarrow> [PatchNotificationRead (getUserId u) nid])
   \<and> fst (markNotificationRead_call c nid s) = s
   \<and> notifications (fst (markNotificationRead_call c nid s)) = notifications s
   \<and> notifications (fst (markNotificationRead_done nid (Inl e) s)) = notifications s
   \<and> notifications (fst (markNotificationRead_done nid (Inr False) s)) = notifications s
   \<and> notifications (fst (markNotificationRead_done nid (Inr True) s))
       = map (\<lambda>n. if notifKey n = Some nid then n\<lparr>isRead := True\<rparr> else n) (notifications s)"
  by (simp add: markNotificationRead_call_def markNotificationRead_done_def
        split: option.splits)

text \<open>
  C4 as stated fails: with the confirm call for \<open>n1\<close> issued and still pending the
  notification is still unread, and it is still unread after the call has failed.
\<close>

theorem markRead_optimistic_counterexample:
  "api_calls (trace [MarkReadCall (render ex_unread) ''n1''] ex_unread)
     = [PatchNotificationRead ''u1'' ''n1'']
   \<and> map isRead (notifications (run [MarkReadCall (render ex_unread) ''n1''] ex_unread))
       = [False]
   \<and> map isRead (notifications (run [MarkReadCall (render ex_unread) ''n1'',
         MarkReadDone ''n1'' (Inl (Failure None))] ex_unread)) = [False]"
  by (simp add: ex_defs render_def markNotificationRead_call_def
        markNotificationRead_done_def getUserId_def js_or_def or_empty_def)

lemma mark_unread_map:
  "map (\<lambda>n. if isRead n then n else n\<lparr>isRead := True\<rparr>) ns = map (\<lambda>n. n\<lparr>isRead := True\<rparr>) ns"
  by (induction ns) simp_all

text \<open>
  C8, as amended. \<open>markAllReadLocal\<close>, called from the current render, issues no request
  when no notification is unread (or nobody is logged in) and exactly one batch request
  otherwise; the call itself leaves the collection unchanged. When the batch request
  resolves with \<open>success\<close> every entry is read afterwards; when it fails, or resolves
  without \<open>success\<close>, the collection is unchanged.
\<close>

theorem markAllRead_amended:
  "api_calls (snd (markAllReadLocal_call (render s) now s))
     = (if unreadCount s = 0 then []
        else case currentUser s of None \<Rightarrow> [] | Some u \<Rightarrow> [PatchMarkRead (getUserId u)])
   \<and> notifications (fst (markAllReadLocal_call (render s) now s)) = notifications s
   \<and> notifications (fst (markAllReadLocal_done t (Inr (True, k)) s))
       = map (\<lambda>n. n\<lparr>isRead := True\<rparr>) (notifications s)
   \<and> notifications (fst (markAllReadLocal_done t (Inr (False, k)) s)) = notifications s
   \<and> notifications (fst (markAllReadLocal_done t (Inl e) s)) = notifications s"
  by (simp add: markAllReadLocal_call_def markAllReadLocal_done_def render_def
        unreadCount_def mark_unread_map split: option.splits)

text \<open>
  C8 as stated fails: with one unread notification the batch request is issued, it fails,
  and the notification is still unread.
\<close>

theorem markAllRead_counterexample:
  "unreadCount ex_unread = 1
   \<and> api_calls (trace [MarkAllReadCall (render ex_unread) 1000,
                       MarkAllReadDone 2000 (Inl (Failure None))] ex_unread)
       = [PatchMarkRead ''u1'']
   \<and> map isRead (notifications (run [MarkAllReadCall (render ex_unread) 1000,
                       MarkAllReadDone 2000 (Inl (Failure None))] ex_unread)) = [False]"
  by (simp add: ex_defs render_def markAllReadLocal_call_def markAllReadLocal_done_def
        unreadCount_def getUserId_def js_or_def or_empty_def)

subsection \<open>Unread count\<close>

lemma unread_eq: "length (filter (\<lambda>n. \<not> isRead n) ns) = spec_unreadCount ns"
  by (induction ns) simp_all

text \<open>How each reconciler operation moves the count.\<close>

lemma unread_after_snapshot:
  "unreadCount (fst (fetchNotifications_done (Inr body) s))
     = spec_unreadCount (payload_list body)"
  by (simp add: unreadCount_def fetchNotifications_done_def unread_eq)

lemma unread_after_push:
  "unreadCount (fst (onNotification c granted now notif s))
     = (if isRead notif then unreadCount s else Suc (unreadCount s))"
  by (simp add: unreadCount_def notifications_onNotification)

lemma unread_after_markAll:
  "unreadCount (fst (markAllReadLocal_done now (Inr (True, k)) s)) = 0"
  by (simp add: unreadCount_def markAllReadLocal_done_def mark_unread_map filter_empty_conv)

lemma unread_after_markRead:
  "unreadCount (fst (markNotificationRead_done nid r s)) \<le> unreadCount s"
proof -
  have "length (filter (\<lambda>n. \<not> isRead n)
          (map (\<lambda>n. if notifKey n = Some nid then n\<lparr>isRead := True\<rparr> else n) ns))
        \<le> length (filter (\<lambda>n. \<not> isRead n) ns)" for ns
    by (induction ns) auto
  then show ?thesis
    by (auto simp: unreadCount_def markNotificationRead_done_def split: sum.splits)
qed

text \<open>
  C7. After every sequence of events the unread count the component displays is the
  number of notifications of the current collection whose \<open>isRead\<close> is false. The
  count is no cell of the state: it is computed from the collection.
\<close>

theorem unread_count_invariant:
  "unreadCount (run es s) = spec_unreadCount (notifications (run es s))"
  by (simp add: unreadCount_def unread_eq)

subsection \<open>Logout\<close>

text \<open>
  C5. After \<open>handleLogout\<close>, whatever the state was, the task collection, the
  notification collection and the log cache are empty, \<open>socketRef\<close> holds no socket,
  and a socket that was held has been told to disconnect.
\<close>

theorem logout_full_reset:
  "tasks (fst (handleLogout now s)) = []
   \<and> notifications (fst (handleLogout now s)) = []
   \<and> logsByTask (fst (handleLogout now s)) = Map.empty
   \<and> socketRef (fst (handleLogout now s)) = None
   \<and> (socketRef s \<noteq> None \<longrightarrow> SocketDisconnect \<in> set (snd (handleLogout now s)))"
  by (auto simp: handleLogout_def Let_def showToast_def)

theorem logout_full_reset_witness:
  "socketRef ex_busy \<noteq> None
   \<and> tasks ex_busy \<noteq> [] \<and> notifications ex_busy \<noteq> [] \<and> logsByTask ex_busy \<noteq> Map.empty
   \<and> tasks (fst (handleLogout 1000 ex_busy)) = []
   \<and> notifications (fst (handleLogout 1000 ex_busy)) = []
   \<and> logsByTask (fst (handleLogout 1000 ex_busy)) = Map.empty
   \<and> socketRef (fst (handleLogout 1000 ex_busy)) = None
   \<and> SocketDisconnect \<in> set (snd (handleLogout 1000 ex_busy))"
proof -
  have h: "socketRef ex_busy \<noteq> None"
    by (simp add: ex_busy_def)
  have pre: "tasks ex_busy \<noteq> [] \<and> notifications ex_busy \<noteq> []
      \<and> logsByTask ex_busy \<noteq> Map.empty"
    by (simp add: ex_busy_def)
  from logout_full_reset [of 1000 ex_busy] h pre show ?thesis
    by blast
qed

subsection \<open>Toasts\<close>

text \<open>Dismissing by id keeps every toast with another id, in order.\<close>

lemma removeToast_others:
  "filter (\<lambda>toast. toast_id toast \<noteq> i) (toasts (removeToast i s))
     = filter (\<lambda>toast. toast_id toast \<noteq> i) (toasts s)"
  by (simp add: removeToast_def)

text \<open>
  C9, evaluated where it fails. Two toasts pushed within the same millisecond get the same
  id \<open>1000\<close>, and dismissing that id removes both of them.
\<close>

theorem toast_id_collision:
  "map toast_id (toasts (run [ShowToast 1000 ''Task created successfully!'',
                              ShowToast 1000 ''Task deleted successfully!''] init_state))
     = [''1000'', ''1000'']
   \<and> toasts (run [ShowToast 1000 ''Task created successfully!'',
                  ShowToast 1000 ''Task deleted successfully!'',
                  RemoveToast ''1000''] init_state) = []"
  by (simp add: init_state_def showToast_def removeToast_def toString_1000)

subsection \<open>Deleting a task\<close>

text \<open>
  C10. After a successful delete of a task with id \<open>t\<close> no task with id \<open>t\<close> is left
  and the log cache has no entry for \<open>t\<close>; the tasks with another id are all kept, in
  their order, and the cached logs of every other task id are unchanged.
\<close>

theorem deleteTask_frame:
  "(\<forall>x \<in> set (tasks (delete_success now task s)). getTaskId x \<noteq> getTaskId task)
   \<and> tasks (delete_success now task s)
       = filter (\<lambda>x. getTaskId x \<noteq> getTaskId task) (tasks s)
   \<and> logsByTask (delete_success now task s) (getTaskId task) = None
   \<and> (\<forall>k. k \<noteq> getTaskId task \<longrightarrow>
         logsByTask (delete_success now task s) k = logsByTask s k)"
  by (simp add: delete_success_def deleteTask_call_def deleteTask_done_def)

theorem deleteTask_frame_witness:
  "ex_task ''t2'' ''B'' \<in> set (tasks (delete_success 1000 (ex_task ''t1'' ''A'') ex_busy))
   \<and> getTaskId (ex_task ''t2'' ''B'') \<noteq> getTaskId (ex_task ''t1'' ''A'')
   \<and> ''t2'' \<noteq> getTaskId (ex_task ''t1'' ''A'')
   \<and> tasks (delete_success 1000 (ex_task ''t1'' ''A'') ex_busy) = [ex_task ''t2'' ''B'']
   \<and> logsByTask (delete_success 1000 (ex_task ''t1'' ''A'') ex_busy) ''t1'' = None
   \<and> logsByTask (delete_success 1000 (ex_task ''t1'' ''A'') ex_busy) ''t2'' = Some []"
  using deleteTask_frame [of 1000 "ex_task ''t1'' ''A''" ex_busy]
  by (simp add: ex_defs getTaskId_def js_or_def or_empty_def)

end
